theory Spec2Isabelle
  imports Complex_Main "HOL-Library.Sublist"
begin

section \<open>Python values used by the broadcaster\<close>

text \<open>
  The development embeds \<^verbatim>\<open>email_broadcaster.py\<close>. Python strings are HOL strings
  (code points below 256), Python integers are \<open>int\<close>, and a Python float is a finite
  rational, an infinity or \<open>NaN\<close>. A table cell is a string, an integer or a float; a
  missing cell is the float \<open>NaN\<close>. The name handed to \<open>send_single_email\<close> is a
  cell, because the loop passes \<open>row['nama']\<close> as it finds it; the templates, the sender
  and the recipient's address are strings. Exceptions are values: a function that can
  raise returns a sum whose left injection is the exception. Only exceptions derived
  from \<open>Exception\<close> are modelled; a process signal (\<open>KeyboardInterrupt\<close>) is not an
  outcome of a call here.
\<close>

datatype exn_kind =
    FileNotFoundError
  | ValueError
  | TypeError
  | OverflowError
  | ZeroDivisionError
  | AttributeError
  | RequestException
  | Exception

text \<open>An exception object: its class and \<open>str(e)\<close>. \<open>Exception\<close> stands for the base
  class itself and for every subclass that is not listed.\<close>

datatype exn = Exn exn_kind string

text \<open>\<open>except K\<close> catches \<open>e\<close> when \<open>e\<close> is an instance of \<open>K\<close>; every listed class
  derives from \<open>Exception\<close> and from no other listed class.\<close>

fun isinstance :: "exn \<Rightarrow> exn_kind \<Rightarrow> bool" where
  "isinstance (Exn k m) K = (K = Exception \<or> K = k)"

text \<open>A Python float.\<close>

datatype pyfloat = Finite rat | PosInf | NegInf | NaN

text \<open>A cell of a DataFrame, as \<open>iterrows()\<close> hands it over: a \<open>str\<close>, an \<open>int\<close> or a
  \<open>float\<close>. \<open>isna\<close> is what \<open>dropna\<close> tests.\<close>

datatype cell = Str string | Integer int | Float pyfloat

fun cell_type_name :: "cell \<Rightarrow> string" where
  "cell_type_name (Str s) = ''str''"
| "cell_type_name (Integer n) = ''int''"
| "cell_type_name (Float f) = ''float''"

fun is_str :: "cell \<Rightarrow> bool" where
  "is_str (Str s) = True"
| "is_str c = False"

definition isna :: "cell \<Rightarrow> bool" where
  "isna c = (c = Float NaN)"

text \<open>The value of \<open>response.json()\<close>: dictionaries keep their items as an association
  list with distinct keys.\<close>

datatype json =
    JNull
  | JBool bool
  | JNum int
  | JFloat pyfloat
  | JStr string
  | JArr "json list"
  | JObj "(string \<times> json) list"

text \<open>Python truth value testing, as used by \<open>if result.get('success')\<close>.\<close>

fun truthy :: "json \<Rightarrow> bool" where
  "truthy JNull = False"
| "truthy (JBool b) = b"
| "truthy (JNum n) = (n \<noteq> 0)"
| "truthy (JFloat f) = (f \<noteq> Finite 0)"
| "truthy (JStr s) = (s \<noteq> [])"
| "truthy (JArr xs) = (xs \<noteq> [])"
| "truthy (JObj kv) = (kv \<noteq> [])"

fun type_name :: "json \<Rightarrow> string" where
  "type_name JNull = ''NoneType''"
| "type_name (JBool b) = ''bool''"
| "type_name (JNum n) = ''int''"
| "type_name (JFloat f) = ''float''"
| "type_name (JStr s) = ''str''"
| "type_name (JArr xs) = ''list''"
| "type_name (JObj kv) = ''dict''"

text \<open>\<open>d.get(key, default)\<close> on a dictionary.\<close>

definition dict_get :: "(string \<times> json) list \<Rightarrow> string \<Rightarrow> json \<Rightarrow> json" where
  "dict_get kv key dflt = (case map_of kv key of None \<Rightarrow> dflt | Some v \<Rightarrow> v)"

text \<open>\<open>v.get(key, default)\<close> on any value: a dictionary answers, anything else has no
  attribute \<open>get\<close> and raises \<open>AttributeError\<close>.\<close>

fun py_get :: "json \<Rightarrow> string \<Rightarrow> json \<Rightarrow> exn + json" where
  "py_get (JObj kv) key dflt = Inr (dict_get kv key dflt)"
| "py_get v key dflt =
     Inl (Exn AttributeError
       ([CHR 0x27] @ type_name v @ [CHR 0x27] @ '' object has no attribute '' @
        [CHR 0x27] @ ''get'' @ [CHR 0x27]))"

text \<open>\<open>s.replace(old, new)\<close>: one pass from the left over non-overlapping occurrences;
  an empty \<open>old\<close> matches before every character and at the end.\<close>

fun replace :: "string \<Rightarrow> string \<Rightarrow> string \<Rightarrow> string" where
  "replace [] old new = (if old = [] then new else [])"
| "replace (c # cs) old new =
     (if old = [] then new @ concat (map (\<lambda>x. x # new) (c # cs))
      else if prefix old (c # cs) then new @ replace (drop (length old) (c # cs)) old new
      else c # replace cs old new)"

text \<open>\<open>sep.join(xs)\<close>.\<close>

fun join :: "string \<Rightarrow> string list \<Rightarrow> string" where
  "join sep [] = []"
| "join sep [x] = x"
| "join sep (x # y # ys) = x @ sep @ join sep (y # ys)"

section \<open>The broadcaster object\<close>

text \<open>A Send Result is the dictionary returned by \<open>send_single_email\<close>; the key
  \<open>message_id\<close> exists only in a success result (\<open>None\<close> here when the key is absent).
  \<open>message\<close> is a Python string (\<open>JStr\<close>) or whatever the provider put under
  \<open>error.message\<close>.\<close>

record send_result =
  status :: string
  email :: string
  name :: string
  message :: json
  message_id :: "json option"
  timestamp :: string

record broadcaster =
  api_url :: string
  api_key :: string
  sent_count :: int
  failed_count :: int
  results :: "send_result list"

definition init :: "string \<Rightarrow> string \<Rightarrow> broadcaster" where
  "init url key =
     \<lparr>api_url = url, api_key = key, sent_count = 0, failed_count = 0, results = []\<rparr>"

section \<open>Sending one email\<close>

text \<open>The request payload is a dictionary of strings, kept in insertion order.\<close>

type_synonym payload = "(string \<times> string) list"

text \<open>Lines 152--155 of the source: \<open>if html_body:\<close> is false for \<open>None\<close> and for
  the empty string.\<close>

definition personalized_html_body :: "string option \<Rightarrow> string \<Rightarrow> string option" where
  "personalized_html_body html_body to_name =
     (case html_body of
        None \<Rightarrow> None
      | Some h \<Rightarrow> if h \<noteq> [] then Some (replace h ''{nama}'' to_name) else None)"

text \<open>\<open>if v: payload[key] = v\<close> for an optional string \<open>v\<close>, as the items added.\<close>

definition opt_item :: "string \<Rightarrow> string option \<Rightarrow> payload" where
  "opt_item key v =
     (case v of None \<Rightarrow> [] | Some s \<Rightarrow> if s \<noteq> [] then [(key, s)] else [])"

text \<open>Lines 148--173 of the source: personalisation and the payload.\<close>

definition build_payload ::
  "broadcaster \<Rightarrow> string \<Rightarrow> string \<Rightarrow> string \<Rightarrow> string \<Rightarrow> string option \<Rightarrow> string \<Rightarrow>
   string option \<Rightarrow> string option \<Rightarrow> payload" where
  "build_payload self to_email to_name subject body html_body from_name cc bcc =
     (let personalized_body = replace body ''{nama}'' to_name;
          personalized_subject = replace subject ''{nama}'' to_name
      in [(''endpoint'', ''send-email''),
          (''api_key'', api_key self),
          (''to'', to_email),
          (''subject'', personalized_subject),
          (''body'', personalized_body),
          (''from_name'', from_name)]
         @ opt_item ''html_body'' (personalized_html_body html_body to_name)
         @ opt_item ''cc'' cc
         @ opt_item ''bcc'' bcc)"

text \<open>What the world answers to one \<open>requests.post\<close>: the call raises, or it returns a
  response with a status code whose \<open>json()\<close> raises or yields a value. \<open>now\<close> is the
  clock reading \<open>datetime.now().isoformat()\<close> taken for the result.\<close>

datatype http = Raises exn | Response int "exn + json"

record reply =
  http :: http
  now :: string

definition failed_result :: "string \<Rightarrow> string \<Rightarrow> json \<Rightarrow> string \<Rightarrow> send_result" where
  "failed_result to_email to_name msg ts =
     \<lparr>status = ''failed'', email = to_email, name = to_name, message = msg,
      message_id = None, timestamp = ts\<rparr>"

text \<open>Lines 176--203: the body of the \<open>try\<close>. The counters are updated before the result
  dictionary is built, so an exception raised while building it leaves the update in
  place.\<close>

definition try_body ::
  "broadcaster \<Rightarrow> string \<Rightarrow> string \<Rightarrow> reply \<Rightarrow> broadcaster \<times> (exn + send_result)" where
  "try_body self to_email to_name r =
     (case http r of
        Raises e \<Rightarrow> (self, Inl e)
      | Response status_code js \<Rightarrow>
         (case js of
            Inl e \<Rightarrow> (self, Inl e)
          | Inr result \<Rightarrow>
             (case (if status_code = 200
                    then map_sum id truthy (py_get result ''success'' JNull)
                    else Inr False) of
                Inl e \<Rightarrow> (self, Inl e)
              | Inr True \<Rightarrow>
                 (let self1 = self\<lparr>sent_count := sent_count self + 1\<rparr> in
                  case py_get result ''data'' (JObj []) of
                    Inl e \<Rightarrow> (self1, Inl e)
                  | Inr d \<Rightarrow>
                     (case py_get d ''messageId'' JNull of
                        Inl e \<Rightarrow> (self1, Inl e)
                      | Inr mid \<Rightarrow>
                         (self1, Inr \<lparr>status = ''success'', email = to_email,
                            name = to_name, message = JStr ''Email sent successfully'',
                            message_id = Some mid, timestamp = now r\<rparr>)))
              | Inr False \<Rightarrow>
                 (let self1 = self\<lparr>failed_count := failed_count self + 1\<rparr> in
                  case py_get result ''error'' (JObj []) of
                    Inl e \<Rightarrow> (self1, Inl e)
                  | Inr err \<Rightarrow>
                     (case py_get err ''message'' (JStr ''Unknown error'') of
                        Inl e \<Rightarrow> (self1, Inl e)
                      | Inr m \<Rightarrow> (self1, Inr (failed_result to_email to_name m (now r))))))))"

text \<open>Lines 205--222: the handlers, tried in order; an exception that no handler
  catches propagates.\<close>

definition handlers ::
  "broadcaster \<Rightarrow> string \<Rightarrow> string \<Rightarrow> string \<Rightarrow> exn \<Rightarrow> broadcaster \<times> (exn + send_result)" where
  "handlers self to_email to_name ts e =
     (case e of Exn k m \<Rightarrow>
        if isinstance e RequestException then
          (self\<lparr>failed_count := failed_count self + 1\<rparr>,
           Inr (failed_result to_email to_name (JStr (''Request error: '' @ m)) ts))
        else if isinstance e Exception then
          (self\<lparr>failed_count := failed_count self + 1\<rparr>,
           Inr (failed_result to_email to_name (JStr (''Unexpected error: '' @ m)) ts))
        else (self, Inl e))"

text \<open>\<open>send_single_email\<close>; \<open>post\<close> is \<open>requests.post\<close> at \<open>self.api_url\<close> with the
  30 second timeout, seen as a function of the payload. The personalisation of lines
  149--153 comes before the \<open>try\<close>: \<open>body.replace("{nama}", to_name)\<close> raises
  \<open>TypeError\<close> for a name that is not a \<open>str\<close>, and nothing catches it.\<close>

definition send_single_email ::
  "broadcaster \<Rightarrow> (payload \<Rightarrow> reply) \<Rightarrow> string \<Rightarrow> cell \<Rightarrow> string \<Rightarrow> string \<Rightarrow>
   string option \<Rightarrow> string \<Rightarrow> string option \<Rightarrow> string option \<Rightarrow>
   broadcaster \<times> (exn + send_result)" where
  "send_single_email self post to_email to_name subject body html_body from_name cc bcc =
     (case to_name of
        Str nm \<Rightarrow>
          (let payload = build_payload self to_email nm subject body html_body from_name cc bcc;
               r = post payload
           in case try_body self to_email nm r of
                (self1, Inr res) \<Rightarrow> (self1, Inr res)
              | (self1, Inl e) \<Rightarrow> handlers self1 to_email nm (now r) e)
      | Integer n \<Rightarrow>
          (self, Inl (Exn TypeError
             (''replace() argument 2 must be str, not '' @ cell_type_name to_name)))
      | Float f \<Rightarrow>
          (self, Inl (Exn TypeError
             (''replace() argument 2 must be str, not '' @ cell_type_name to_name))))"

section \<open>The broadcast loop\<close>

text \<open>A row of the recipients frame, seen through the two columns the loop reads. The
  name is whatever cell the frame holds; the address is a string, since the loader
  returns no frame with another kind of email cell.\<close>

record recipient =
  col_nama :: cell
  col_email :: string

text \<open>A DataFrame is its rows in order, each with its index label: \<open>iterrows()\<close> yields
  the label, which is the position only as long as no row has been removed.\<close>

type_synonym dataframe = "(int \<times> recipient) list"

text \<open>What an observer sees of one broadcast, in order: a result appended to
  \<open>self.results\<close>, a \<open>time.sleep\<close>, and the figures printed by the summary (the
  success rate as the exact quotient that is then formatted with two decimals).
  Progress lines are not recorded.\<close>

datatype event =
    Appended send_result
  | Sleep pyfloat
  | Total_Email nat
  | Berhasil int
  | Gagal int
  | Success_Rate rat

text \<open>The arguments of \<open>send_bulk_email\<close> besides the frame.\<close>

record bulk_args =
  subject :: string
  body :: string
  html_body :: "string option"
  from_name :: string
  delay_seconds :: pyfloat
  batch_size :: int

text \<open>\<open>time.sleep(d)\<close>, as the exception it raises, if any, the way CPython 3.11
  does it. \<open>NaN\<close> is a \<open>ValueError\<close>. The length is then multiplied by \<open>1e9\<close> in double
  precision and must fit a signed 64-bit count of nanoseconds, or the call ends in
  \<open>OverflowError\<close> (an infinity, \<open>1e30\<close>): the rounded product is \<open>2^63\<close> or more exactly
  when the product is at least \<open>2^63 - 512\<close>, and less than \<open>-2^63\<close> exactly when the
  product is less than \<open>-2^63 - 1024\<close>. A negative length that passed is a
  \<open>ValueError\<close>.\<close>

definition time_sleep :: "pyfloat \<Rightarrow> exn option" where
  "time_sleep d =
     (case d of
        NaN \<Rightarrow> Some (Exn ValueError ''Invalid value NaN (not a number)'')
      | PosInf \<Rightarrow> Some (Exn OverflowError ''timestamp too large to convert to C _PyTime_t'')
      | NegInf \<Rightarrow> Some (Exn OverflowError ''timestamp too large to convert to C _PyTime_t'')
      | Finite r \<Rightarrow>
          if r * 10 ^ 9 < - (2 ^ 63) - 1024 \<or> 2 ^ 63 - 512 \<le> r * 10 ^ 9 then
            Some (Exn OverflowError ''timestamp too large to convert to C _PyTime_t'')
          else if r < 0 then Some (Exn ValueError ''sleep length must be non-negative'')
          else None)"

text \<open>Lines 255--280: the loop over \<open>iterrows()\<close>. \<open>net k\<close> answers the \<open>k\<close>-th
  \<open>requests.post\<close> of the call. An exception of \<open>send_single_email\<close> leaves the loop
  before anything is appended; \<open>%\<close> by zero raises before \<open>and\<close> looks at its right
  operand; an exception of \<open>time.sleep\<close> leaves the loop too. The loop returns the
  broadcaster, the events in order, and the exception that ended it, if any.\<close>

fun loop ::
  "(nat \<Rightarrow> payload \<Rightarrow> reply) \<Rightarrow> bulk_args \<Rightarrow> int \<Rightarrow> nat \<Rightarrow> dataframe \<Rightarrow> broadcaster \<Rightarrow>
   broadcaster \<times> event list \<times> exn option" where
  "loop net a total_recipients k [] self = (self, [], None)"
| "loop net a total_recipients k ((idx, row) # rest) self =
     (case send_single_email self (net k) (col_email row) (col_nama row)
             (subject a) (body a) (html_body a) (from_name a) None None of
        (self1, Inl e) \<Rightarrow> (self1, [], Some e)
      | (self1, Inr result) \<Rightarrow>
         (let self2 = self1\<lparr>results := results self1 @ [result]\<rparr> in
          if batch_size a = 0 then
            (self2, [Appended result], Some (Exn ZeroDivisionError ''integer modulo by zero''))
          else if (idx + 1) mod batch_size a = 0 \<and> idx + 1 < total_recipients then
            (case time_sleep (delay_seconds a) of
               Some e \<Rightarrow> (self2, [Appended result], Some e)
             | None \<Rightarrow>
               (case loop net a total_recipients (Suc k) rest self2 of
                  (self3, evs, x) \<Rightarrow>
                    (self3, Appended result # Sleep (delay_seconds a) # evs, x)))
          else
            (case loop net a total_recipients (Suc k) rest self2 of
               (self3, evs, x) \<Rightarrow> (self3, Appended result # evs, x))))"

text \<open>\<open>_print_summary\<close>: the lines printed, and the exception of the division when
  \<open>len(self.results)\<close> is zero.\<close>

definition print_summary :: "broadcaster \<Rightarrow> event list \<times> exn option" where
  "print_summary self =
     (let head = [Total_Email (length (results self)), Berhasil (sent_count self),
                  Gagal (failed_count self)]
      in if length (results self) = 0
         then (head, Some (Exn ZeroDivisionError ''division by zero''))
         else (head @ [Success_Rate
                 (of_int (sent_count self) / of_nat (length (results self)) * 100)], None))"

text \<open>\<open>send_bulk_email\<close>: the broadcaster afterwards, what was observed, and the
  returned list or the exception that left the call.\<close>

definition send_bulk_email ::
  "broadcaster \<Rightarrow> (nat \<Rightarrow> payload \<Rightarrow> reply) \<Rightarrow> dataframe \<Rightarrow> bulk_args \<Rightarrow>
   broadcaster \<times> event list \<times> (exn + send_result list)" where
  "send_bulk_email self net recipients_df a =
     (let total_recipients = int (length recipients_df);
          self0 = self\<lparr>results := []\<rparr>
      in case loop net a total_recipients 0 recipients_df self0 of
           (self1, evs, Some e) \<Rightarrow> (self1, evs, Inl e)
         | (self1, evs, None) \<Rightarrow>
            (case print_summary self1 of
               (lines, Some e) \<Rightarrow> (self1, evs @ lines, Inl e)
             | (lines, None) \<Rightarrow> (self1, evs @ lines, Inr (results self1))))"

text \<open>Two readings of the events: the results in the order they were appended, and
  for each \<open>time.sleep\<close> the number of results appended before it (counting from \<open>n\<close>).\<close>

fun appended :: "event list \<Rightarrow> send_result list" where
  "appended [] = []"
| "appended (Appended r # es) = r # appended es"
| "appended (e # es) = appended es"

fun pauses_after :: "nat \<Rightarrow> event list \<Rightarrow> nat list" where
  "pauses_after n [] = []"
| "pauses_after n (Appended r # es) = pauses_after (Suc n) es"
| "pauses_after n (Sleep d # es) = n # pauses_after n es"
| "pauses_after n (e # es) = pauses_after n es"

fun summary_lines :: "event list \<Rightarrow> event list" where
  "summary_lines [] = []"
| "summary_lines (Appended r # es) = summary_lines es"
| "summary_lines (Sleep d # es) = summary_lines es"
| "summary_lines (e # es) = e # summary_lines es"

section \<open>Loading recipients\<close>

text \<open>\<open>\s\<close> in a Python 3 string pattern, on code points below 256.\<close>

definition is_space :: "char \<Rightarrow> bool" where
  "is_space c =
     (let n = (of_char c :: nat)
      in (9 \<le> n \<and> n \<le> 13) \<or> (28 \<le> n \<and> n \<le> 32) \<or> n = 133 \<or> n = 160)"

text \<open>The class \<open>[^\s@]\<close>.\<close>

definition local_char :: "char \<Rightarrow> bool" where
  "local_char c = (\<not> is_space c \<and> c \<noteq> CHR ''@'')"

text \<open>A backtracking matcher for the pieces of the pattern: \<open>A+\<close> followed by the rest
  \<open>k\<close>, a literal followed by \<open>k\<close>, and \<open>$\<close>, which without \<open>MULTILINE\<close> matches at the
  end and before a final newline.\<close>

fun plus_then :: "(char \<Rightarrow> bool) \<Rightarrow> (string \<Rightarrow> bool) \<Rightarrow> string \<Rightarrow> bool" where
  "plus_then A k [] = False"
| "plus_then A k (c # cs) = (A c \<and> (k cs \<or> plus_then A k cs))"

fun lit_then :: "char \<Rightarrow> (string \<Rightarrow> bool) \<Rightarrow> string \<Rightarrow> bool" where
  "lit_then x k [] = False"
| "lit_then x k (c # cs) = (c = x \<and> k cs)"

definition at_end :: "string \<Rightarrow> bool" where
  "at_end s = (s = [] \<or> s = [CHR 0x0A])"

text \<open>\<open>re.match(r'^[^\s@]+@[^\s@]+\.[^\s@]+$', s)\<close>, which is what \<open>str.match\<close> asks for
  each cell.\<close>

definition email_valid :: "string \<Rightarrow> bool" where
  "email_valid s =
     plus_then local_char
       (lit_then CHR ''@''
         (plus_then local_char
           (lit_then CHR ''.''
             (plus_then local_char at_end)))) s"

text \<open>A row of the table as \<open>read_csv\<close> delivers it, seen through the two required
  columns; an empty field is the float \<open>NaN\<close>.\<close>

record raw_row =
  cell_nama :: cell
  cell_email :: cell

record table =
  columns :: "string list"
  cells :: "raw_row list"

text \<open>Lines 45--71: the body of the \<open>try\<close> once the file has been read. The frame
  starts with the labels \<open>0, 1, ...\<close>; \<open>dropna\<close> and the boolean mask remove rows and
  leave the labels of the others as they are.

  Line 58 asks for the \<open>.str\<close> accessor of the email column. The column of a file
  with rows is of object dtype only when one of its cells is a string; a column of
  numbers, or of nothing but empty fields, is numeric, and the accessor raises
  \<open>AttributeError\<close>. In a column of object dtype \<open>match\<close> answers \<open>NaN\<close> for a cell that
  is not a string, and line 59 cannot negate that (\<open>read_csv\<close> delivers no such mixed
  column). Past these two points every remaining email cell is a string.\<close>

definition load_body :: "table \<Rightarrow> exn + dataframe" where
  "load_body t =
     (let required_columns = [''nama'', ''email''];
          missing_columns = filter (\<lambda>col. col \<notin> set (columns t)) required_columns
      in if missing_columns \<noteq> [] then
           Inl (Exn ValueError (''Kolom yang hilang: '' @ join '', '' missing_columns))
         else
           (let df0 = zip (map int [0..<length (cells t)]) (cells t);
                dropped = filter (\<lambda>(i, r). \<not> isna (cell_email r)) df0
            in if cells t \<noteq> [] \<and> list_all (\<lambda>r. \<not> is_str (cell_email r)) (cells t) then
                 Inl (Exn AttributeError ''Can only use .str accessor with string values!'')
               else if list_ex (\<lambda>(i, r). \<not> is_str (cell_email r)) dropped then
                 Inl (Exn TypeError
                   (''bad operand type for unary ~: '' @ [CHR 0x27] @ ''float'' @ [CHR 0x27]))
               else
                 (let df1 = List.map_filter
                        (\<lambda>(i, r). case cell_email r of
                            Str e \<Rightarrow> Some (i, \<lparr>col_nama = cell_nama r, col_email = e\<rparr>)
                          | Integer n \<Rightarrow> None
                          | Float f \<Rightarrow> None) dropped;
                      invalid_emails = filter (\<lambda>(i, r). \<not> email_valid (col_email r)) df1
                  in Inr (if length invalid_emails > 0
                          then filter (\<lambda>(i, r). email_valid (col_email r)) df1
                          else df1))))"

text \<open>\<open>load_recipients_from_csv\<close>; \<open>read_csv\<close> is \<open>pd.read_csv\<close>, which raises
  \<open>FileNotFoundError\<close> for a path that does not exist. The first handler replaces a
  \<open>FileNotFoundError\<close> by one with its own message, the second replaces any other
  exception, the \<open>ValueError\<close> of the column check included, by a plain \<open>Exception\<close>.\<close>

definition load_recipients_from_csv ::
  "(string \<Rightarrow> exn + table) \<Rightarrow> string \<Rightarrow> exn + dataframe" where
  "load_recipients_from_csv read_csv file_path =
     (case (case read_csv file_path of Inl e \<Rightarrow> Inl e | Inr t \<Rightarrow> load_body t) of
        Inr df \<Rightarrow> Inr df
      | Inl (Exn k m) \<Rightarrow>
         if isinstance (Exn k m) FileNotFoundError then
           Inl (Exn FileNotFoundError (''File tidak ditemukan: '' @ file_path))
         else if isinstance (Exn k m) Exception then
           Inl (Exn Exception (''Error membaca file CSV: '' @ m))
         else Inl (Exn k m))"

section \<open>Sample inputs\<close>

text \<open>A provider answer of the documented success shape, a network that always gives it,
  arguments with a chosen batch size, and a frame with chosen index labels.\<close>

definition sample_ok :: reply where
  "sample_ok =
     \<lparr>http = Response 200
        (Inr (JObj [(''success'', JBool True),
                    (''data'', JObj [(''messageId'', JStr ''m1'')])])),
      now = ''2026-01-01T00:00:00''\<rparr>"

definition sample_net :: "nat \<Rightarrow> payload \<Rightarrow> reply" where
  "sample_net k p = sample_ok"

definition sample_args :: "int \<Rightarrow> bulk_args" where
  "sample_args bs =
     \<lparr>subject = ''Halo {nama}'', body = ''Yth. {nama}'', html_body = None,
      from_name = ''Broadcast System'', delay_seconds = Finite 1, batch_size = bs\<rparr>"

definition sample_frame :: "int list \<Rightarrow> dataframe" where
  "sample_frame labels =
     map (\<lambda>i. (i, \<lparr>col_nama = Str ''Alice'', col_email = ''alice@example.com''\<rparr>)) labels"


text \<open>A file of four rows whose first row has a malformed email.\<close>

definition sample_table :: table where
  "sample_table =
     \<lparr>columns = [''nama'', ''email''],
      cells = [\<lparr>cell_nama = Str ''Mallory'', cell_email = Str ''not-an-email''\<rparr>,
               \<lparr>cell_nama = Str ''Alice'', cell_email = Str ''alice@example.com''\<rparr>,
               \<lparr>cell_nama = Str ''Alice'', cell_email = Str ''alice@example.com''\<rparr>,
               \<lparr>cell_nama = Str ''Alice'', cell_email = Str ''alice@example.com''\<rparr>]\<rparr>"

definition sample_read_csv :: "string \<Rightarrow> exn + table" where
  "sample_read_csv file_path = Inr sample_table"

text \<open>A file with an empty email field, a malformed email and two good rows.\<close>

definition sample_table_gaps :: table where
  "sample_table_gaps =
     \<lparr>columns = [''nama'', ''email''],
      cells = [\<lparr>cell_nama = Str ''Nina'', cell_email = Float NaN\<rparr>,
               \<lparr>cell_nama = Str ''Alice'', cell_email = Str ''alice@example.com''\<rparr>,
               \<lparr>cell_nama = Str ''Mallory'', cell_email = Str ''not-an-email''\<rparr>,
               \<lparr>cell_nama = Str ''Budi'', cell_email = Str ''budi@example.com''\<rparr>]\<rparr>"

definition sample_read_gaps :: "string \<Rightarrow> exn + table" where
  "sample_read_gaps file_path = Inr sample_table_gaps"

definition sample_frame_gaps :: dataframe where
  "sample_frame_gaps =
     [(1, \<lparr>col_nama = Str ''Alice'', col_email = ''alice@example.com''\<rparr>),
      (3, \<lparr>col_nama = Str ''Budi'', col_email = ''budi@example.com''\<rparr>)]"

text \<open>A file whose email fields are all empty.\<close>

definition sample_table_no_emails :: table where
  "sample_table_no_emails =
     \<lparr>columns = [''nama'', ''email''],
      cells = [\<lparr>cell_nama = Str ''Nina'', cell_email = Float NaN\<rparr>,
               \<lparr>cell_nama = Str ''Omar'', cell_email = Float NaN\<rparr>]\<rparr>"

definition sample_read_no_emails :: "string \<Rightarrow> exn + table" where
  "sample_read_no_emails file_path = Inr sample_table_no_emails"

text \<open>A file whose first row has an empty name field and a good email.\<close>

definition sample_table_nameless :: table where
  "sample_table_nameless =
     \<lparr>columns = [''nama'', ''email''],
      cells = [\<lparr>cell_nama = Float NaN, cell_email = Str ''budi@example.com''\<rparr>,
               \<lparr>cell_nama = Str ''Alice'', cell_email = Str ''alice@example.com''\<rparr>]\<rparr>"

definition sample_read_nameless :: "string \<Rightarrow> exn + table" where
  "sample_read_nameless file_path = Inr sample_table_nameless"

definition sample_frame_nameless :: dataframe where
  "sample_frame_nameless =
     [(0, \<lparr>col_nama = Float NaN, col_email = ''budi@example.com''\<rparr>),
      (1, \<lparr>col_nama = Str ''Alice'', col_email = ''alice@example.com''\<rparr>)]"

text \<open>A file without the \<open>email\<close> column, and a path that does not exist.\<close>

definition sample_table_no_email :: table where
  "sample_table_no_email =
     \<lparr>columns = [''nama''], cells = [\<lparr>cell_nama = Str ''Alice'', cell_email = Float NaN\<rparr>]\<rparr>"

definition sample_read_no_email :: "string \<Rightarrow> exn + table" where
  "sample_read_no_email file_path = Inr sample_table_no_email"

definition sample_read_missing :: "string \<Rightarrow> exn + table" where
  "sample_read_missing file_path =
     Inl (Exn FileNotFoundError ''[Errno 2] No such file or directory'')"

text \<open>An answer that reports success with \<open>data: null\<close>, an answer whose \<open>error\<close> is a
  plain string, and the \<open>requests.post\<close> functions that give them.\<close>

definition sample_null_data :: reply where
  "sample_null_data =
     \<lparr>http = Response 200 (Inr (JObj [(''success'', JBool True), (''data'', JNull)])),
      now = ''2026-01-01T00:00:00''\<rparr>"

definition sample_post_null_data :: "payload \<Rightarrow> reply" where
  "sample_post_null_data p = sample_null_data"

definition sample_error_string :: reply where
  "sample_error_string =
     \<lparr>http = Response 500 (Inr (JObj [(''error'', JStr ''Quota exceeded'')])),
      now = ''2026-01-01T00:00:00''\<rparr>"

definition sample_post_error_string :: "payload \<Rightarrow> reply" where
  "sample_post_error_string p = sample_error_string"

section \<open>Properties of a single send\<close>

text \<open>Definitions unfolded when the program is run on the sample inputs.\<close>

lemmas eval_defs = send_bulk_email_def send_single_email_def try_body_def handlers_def
  dict_get_def build_payload_def personalized_html_body_def opt_item_def failed_result_def
  print_summary_def time_sleep_def sample_frame_def sample_args_def sample_net_def
  sample_ok_def init_def Let_def

lemmas load_defs = load_recipients_from_csv_def load_body_def email_valid_def local_char_def
  is_space_def at_end_def isna_def List.map_filter_def

lemma map_of_opt_item:
  "map_of (opt_item key v) k = (case v of None \<Rightarrow> None | Some s \<Rightarrow> if s \<noteq> [] \<and> k = key then Some s else None)"
  by (simp add: opt_item_def split: option.splits)

lemma handlers_returns:
  "\<exists>res. handlers self to_email to_name ts e =
     (self\<lparr>failed_count := failed_count self + 1\<rparr>, Inr res)
     \<and> status res = ''failed'' \<and> email res = to_email \<and> name res = to_name \<and> message_id res = None"
  by (cases e) (simp add: handlers_def failed_result_def)

lemma try_body_shape:
  "try_body self to_email to_name r = (self1, x) \<Longrightarrow>
     results self1 = results self \<and> api_key self1 = api_key self \<and> api_url self1 = api_url self \<and>
     (\<forall>res. x = Inr res \<longrightarrow> email res = to_email \<and> name res = to_name
        \<and> (status res = ''success'' \<or> status res = ''failed''))"
  by (auto simp: try_body_def failed_result_def Let_def
      split: http.splits sum.splits if_splits bool.splits)

text \<open>With a name that is a string, every outcome of \<open>requests.post\<close> comes back as a
  Send Result for the recipient.\<close>

lemma send_single_email_returns:
  "\<exists>self1 res. send_single_email self post to_email (Str nm) subj bdy html sender cc bcc
      = (self1, Inr res)
     \<and> results self1 = results self \<and> api_key self1 = api_key self \<and> api_url self1 = api_url self
     \<and> email res = to_email \<and> name res = nm
     \<and> (status res = ''success'' \<or> status res = ''failed'')"
proof -
  let ?r = "post (build_payload self to_email nm subj bdy html sender cc bcc)"
  obtain self1 x where tb: "try_body self to_email nm ?r = (self1, x)"
    by (cases "try_body self to_email nm ?r") auto
  note sh = try_body_shape[OF tb]
  show ?thesis
  proof (cases x)
    case (Inr res)
    with tb sh show ?thesis by (simp add: send_single_email_def Let_def)
  next
    case (Inl e)
    from handlers_returns[of self1 to_email nm "now ?r" e]
    obtain res where "handlers self1 to_email nm (now ?r) e =
     (self1\<lparr>failed_count := failed_count self1 + 1\<rparr>, Inr res)
     \<and> status res = ''failed'' \<and> email res = to_email \<and> name res = nm \<and> message_id res = None"
      by blast
    with Inl tb sh show ?thesis by (simp add: send_single_email_def Let_def)
  qed
qed

text \<open>A timed-out call (a \<open>RequestException\<close>) comes back as a failed result.\<close>

lemma send_single_email_timeout:
  "send_single_email self (\<lambda>p. \<lparr>http = Raises (Exn RequestException m), now = ts\<rparr>)
         to_email (Str nm) subj bdy html sender cc bcc
       = (self\<lparr>failed_count := failed_count self + 1\<rparr>,
          Inr (failed_result to_email nm (JStr (''Request error: '' @ m)) ts))"
  by (simp add: send_single_email_def try_body_def handlers_def Let_def)

text \<open>With a name that is not a string the call raises, whatever the other arguments.\<close>

lemma send_single_email_not_str:
  "\<not> is_str c \<Longrightarrow>
     send_single_email self post to_email c subj bdy html sender cc bcc
       = (self, Inl (Exn TypeError (''replace() argument 2 must be str, not '' @ cell_type_name c)))"
  by (cases c) (simp_all add: send_single_email_def)

text \<open>
  \<^bold>\<open>C10.\<close> An \<open>html_body\<close> that is the empty string is treated as an absent one: there
  is no personalised HTML body, the payload has no \<open>html_body\<close> item, and the whole
  call behaves as with \<open>None\<close>, for any name cell. An empty \<open>cc\<close> or \<open>bcc\<close> is left out of
  the payload in the same way.
\<close>

theorem empty_optional_fields_omitted:
  "personalized_html_body (Some []) to_name = None
   \<and> build_payload self to_email to_name subj bdy (Some []) sender cc bcc
       = build_payload self to_email to_name subj bdy None sender cc bcc
   \<and> map_of (build_payload self to_email to_name subj bdy (Some []) sender cc bcc) ''html_body'' = None
   \<and> map_of (build_payload self to_email to_name subj bdy None sender cc bcc) ''html_body'' = None
   \<and> build_payload self to_email to_name subj bdy html sender (Some []) bcc
       = build_payload self to_email to_name subj bdy html sender None bcc
   \<and> map_of (build_payload self to_email to_name subj bdy html sender (Some []) bcc) ''cc'' = None
   \<and> build_payload self to_email to_name subj bdy html sender cc (Some [])
       = build_payload self to_email to_name subj bdy html sender cc None
   \<and> map_of (build_payload self to_email to_name subj bdy html sender cc (Some [])) ''bcc'' = None
   \<and> send_single_email self post to_email name_cell subj bdy (Some []) sender cc bcc
       = send_single_email self post to_email name_cell subj bdy None sender cc bcc"
  by (simp add: personalized_html_body_def build_payload_def send_single_email_def
        opt_item_def Let_def map_of_append split: option.splits cell.splits)

section \<open>Personalisation\<close>

lemma token_not_prefix_shifted:
  assumes "\<not> sublist ''{nama}'' (c # s)"
  shows "\<not> prefix ''{nama}'' ((c # s) @ ''{nama}'' @ rest)"
proof
  assume p: "prefix ''{nama}'' ((c # s) @ ''{nama}'' @ rest)"
  consider "s = []" | a where "s = [a]" | a b where "s = [a, b]" | a b d where "s = [a, b, d]"
    | a b d e where "s = [a, b, d, e]" | a b d e f s' where "s = a # b # d # e # f # s'"
    by (metis list.exhaust)
  then show False
  proof cases
    case 6
    with p have "prefix ''{nama}'' (c # s)" by auto
    then have "sublist ''{nama}'' (c # s)" by (rule prefix_imp_sublist)
    with assms show False by simp
  qed (use p in simp_all)
qed

lemma replace_skip:
  "old \<noteq> [] \<Longrightarrow> \<not> prefix old (c # cs) \<Longrightarrow> replace (c # cs) old new = c # replace cs old new"
  by simp

lemma replace_hit:
  "old \<noteq> [] \<Longrightarrow> replace (old @ rest) old new = new @ replace rest old new"
  by (cases old) simp_all

lemma replace_segment_token:
  "\<not> sublist ''{nama}'' s \<Longrightarrow>
     replace (s @ ''{nama}'' @ rest) ''{nama}'' new = s @ new @ replace rest ''{nama}'' new"
proof (induction s)
  case Nil
  show ?case using replace_hit[of "''{nama}''" rest new] by simp
next
  case (Cons c s)
  have np: "\<not> prefix ''{nama}'' (c # (s @ ''{nama}'' @ rest))"
    using token_not_prefix_shifted[OF Cons.prems, of rest] by (simp del: prefix_code)
  have "\<not> sublist ''{nama}'' s"
    using Cons.prems by (meson sublist_Cons_right)
  then have ih: "replace (s @ ''{nama}'' @ rest) ''{nama}'' new = s @ new @ replace rest ''{nama}'' new"
    by (rule Cons.IH)
  have "replace (c # (s @ ''{nama}'' @ rest)) ''{nama}'' new
        = c # replace (s @ ''{nama}'' @ rest) ''{nama}'' new"
    by (rule replace_skip[OF _ np]) simp
  with ih show ?case by (simp del: replace.simps)
qed

lemma replace_token_free:
  "\<not> sublist ''{nama}'' s \<Longrightarrow> replace s ''{nama}'' new = s"
proof (induction s)
  case Nil
  show ?case by simp
next
  case (Cons c s)
  have np: "\<not> prefix ''{nama}'' (c # s)"
    using Cons.prems prefix_imp_sublist by blast
  have "\<not> sublist ''{nama}'' s"
    using Cons.prems by (meson sublist_Cons_right)
  then have "replace s ''{nama}'' new = s" by (rule Cons.IH)
  moreover have "replace (c # s) ''{nama}'' new = c # replace s ''{nama}'' new"
    by (rule replace_skip[OF _ np]) simp
  ultimately show ?case by (simp del: replace.simps)
qed

lemma replace_join:
  "\<forall>seg \<in> set segs. \<not> sublist ''{nama}'' seg \<Longrightarrow>
     replace (join ''{nama}'' segs) ''{nama}'' new = join new segs"
proof (induction "''{nama}''" segs rule: join.induct)
  case 1
  show ?case by simp
next
  case (2 x)
  then show ?case by (simp add: replace_token_free)
next
  case (3 x y ys)
  then have "replace (join ''{nama}'' (y # ys)) ''{nama}'' new = join new (y # ys)" by simp
  moreover have "\<not> sublist ''{nama}'' x" using 3 by simp
  ultimately show ?case
    using replace_segment_token[of x "join ''{nama}'' (y # ys)" new] by simp
qed

lemma join_append:
  "xs \<noteq> [] \<Longrightarrow> ys \<noteq> [] \<Longrightarrow> join sep (xs @ ys) = join sep xs @ sep @ join sep ys"
proof (induction sep xs rule: join.induct)
  case (2 sep x)
  then show ?case by (cases ys) simp_all
qed simp_all

lemma segments_exist:
  "\<exists>segs. segs \<noteq> [] \<and> t = join ''{nama}'' segs \<and> (\<forall>seg \<in> set segs. \<not> sublist ''{nama}'' seg)"
proof (induction t rule: length_induct)
  case (1 t)
  show ?case
  proof (cases "sublist ''{nama}'' t")
    case False
    then have "[t] \<noteq> [] \<and> t = join ''{nama}'' [t] \<and> (\<forall>seg \<in> set [t]. \<not> sublist ''{nama}'' seg)"
      by simp
    then show ?thesis by blast
  next
    case True
    then obtain u v where t: "t = u @ ''{nama}'' @ v" by (auto simp: sublist_def)
    have "length u < length t" "length v < length t" using t by simp_all
    with 1 obtain us vs where
      us: "us \<noteq> []" "u = join ''{nama}'' us" "\<forall>seg \<in> set us. \<not> sublist ''{nama}'' seg" and
      vs: "vs \<noteq> []" "v = join ''{nama}'' vs" "\<forall>seg \<in> set vs. \<not> sublist ''{nama}'' seg"
      by metis
    have "t = join ''{nama}'' (us @ vs)"
      using t us(1,2) vs(1,2) by (simp add: join_append)
    moreover have "\<forall>seg \<in> set (us @ vs). \<not> sublist ''{nama}'' seg" using us(3) vs(3) by auto
    moreover have "us @ vs \<noteq> []" using us(1) by simp
    ultimately show ?thesis by blast
  qed
qed


text \<open>
  \<^bold>\<open>C7.\<close> Every subject, body and HTML body is a sequence of pieces that do not contain
  the token \<open>{nama}\<close>, separated by the occurrences of the token; what is sent is the
  same pieces, in the same order, separated by the recipient's name. So every
  occurrence is replaced and no other text is altered. (An HTML body is sent only when
  it is not empty before and after the replacement.)
\<close>

theorem personalization_replaces_every_token:
  "\<exists>ss bs. ss \<noteq> [] \<and> bs \<noteq> []
     \<and> subj = join ''{nama}'' ss \<and> (\<forall>x \<in> set ss. \<not> sublist ''{nama}'' x)
     \<and> bdy = join ''{nama}'' bs \<and> (\<forall>x \<in> set bs. \<not> sublist ''{nama}'' x)
     \<and> map_of (build_payload self to_email to_name subj bdy html sender cc bcc) ''subject''
         = Some (join to_name ss)
     \<and> map_of (build_payload self to_email to_name subj bdy html sender cc bcc) ''body''
         = Some (join to_name bs)
     \<and> (case html of
          None \<Rightarrow>
            map_of (build_payload self to_email to_name subj bdy html sender cc bcc) ''html_body''
              = None
        | Some h \<Rightarrow>
            (\<exists>hs. hs \<noteq> [] \<and> h = join ''{nama}'' hs \<and> (\<forall>x \<in> set hs. \<not> sublist ''{nama}'' x)
               \<and> personalized_html_body html to_name
                   = (if h = [] then None else Some (join to_name hs))
               \<and> map_of (build_payload self to_email to_name subj bdy html sender cc bcc)
                    ''html_body''
                   = (if join to_name hs = [] then None else Some (join to_name hs))))"
proof -
  obtain ss where ss: "ss \<noteq> []" "subj = join ''{nama}'' ss"
      "\<forall>x \<in> set ss. \<not> sublist ''{nama}'' x"
    using segments_exist[of subj] by blast
  obtain bs where bs: "bs \<noteq> []" "bdy = join ''{nama}'' bs"
      "\<forall>x \<in> set bs. \<not> sublist ''{nama}'' x"
    using segments_exist[of bdy] by blast
  have rs: "replace subj ''{nama}'' to_name = join to_name ss"
    using ss replace_join by blast
  have rb: "replace bdy ''{nama}'' to_name = join to_name bs"
    using bs replace_join by blast
  let ?p = "build_payload self to_email to_name subj bdy html sender cc bcc"
  have p1: "map_of ?p ''subject'' = Some (join to_name ss)"
    using rs by (simp add: build_payload_def Let_def del: replace.simps)
  have p2: "map_of ?p ''body'' = Some (join to_name bs)"
    using rb by (simp add: build_payload_def Let_def del: replace.simps)
  have ph: "map_of ?p ''html_body''
      = (case personalized_html_body html to_name of
           None \<Rightarrow> None | Some s \<Rightarrow> if s \<noteq> [] then Some s else None)"
    by (simp add: build_payload_def Let_def map_of_append map_of_opt_item map_add_def
          split: option.splits del: replace.simps)
  have p3: "(case html of
          None \<Rightarrow> map_of ?p ''html_body'' = None
        | Some h \<Rightarrow>
            (\<exists>hs. hs \<noteq> [] \<and> h = join ''{nama}'' hs \<and> (\<forall>x \<in> set hs. \<not> sublist ''{nama}'' x)
               \<and> personalized_html_body html to_name
                   = (if h = [] then None else Some (join to_name hs))
               \<and> map_of ?p ''html_body''
                   = (if join to_name hs = [] then None else Some (join to_name hs))))"
  proof (cases html)
    case None
    then show ?thesis using ph by (simp add: personalized_html_body_def)
  next
    case (Some h)
    obtain hs where hs: "hs \<noteq> []" "h = join ''{nama}'' hs"
        "\<forall>x \<in> set hs. \<not> sublist ''{nama}'' x"
      using segments_exist[of h] by blast
    have rh: "replace h ''{nama}'' to_name = join to_name hs"
      using hs replace_join by blast
    have e: "h = [] \<Longrightarrow> join to_name hs = []"
      using rh by simp
    have a: "personalized_html_body html to_name
         = (if h = [] then None else Some (join to_name hs))"
      using Some rh by (simp add: personalized_html_body_def del: replace.simps)
    have b: "map_of ?p ''html_body''
         = (if join to_name hs = [] then None else Some (join to_name hs))"
      using ph a e by (simp del: replace.simps)
    show ?thesis using Some hs a b by (auto simp del: replace.simps)
  qed
  show ?thesis using ss bs p1 p2 p3 by blast
qed

theorem personalization_replaces_every_token_witness:
  "map_of (build_payload (init ''u'' ''k'') ''alice@example.com'' ''Alice''
       ''Halo {nama}, {nama}!'' ''Yth. {nama}'' None ''Broadcast System'' None None) ''subject''
     = Some ''Halo Alice, Alice!''
   \<and> (\<exists>ss. ss \<noteq> [] \<and> ''Halo {nama}, {nama}!'' = join ''{nama}'' ss
        \<and> (\<forall>x \<in> set ss. \<not> sublist ''{nama}'' x)
        \<and> join ''Alice'' ss = ''Halo Alice, Alice!'')"
proof -
  let ?p = "build_payload (init ''u'' ''k'') ''alice@example.com'' ''Alice''
       ''Halo {nama}, {nama}!'' ''Yth. {nama}'' None ''Broadcast System'' None None"
  have ev: "map_of ?p ''subject'' = Some ''Halo Alice, Alice!''"
    by (simp add: build_payload_def Let_def)
  from personalization_replaces_every_token[of "''Halo {nama}, {nama}!''" "''Yth. {nama}''"
      "init ''u'' ''k''" "''alice@example.com''" "''Alice''" None "''Broadcast System''" None None]
  obtain ss where "ss \<noteq> []" "''Halo {nama}, {nama}!'' = join ''{nama}'' ss"
      "\<forall>x \<in> set ss. \<not> sublist ''{nama}'' x" "map_of ?p ''subject'' = Some (join ''Alice'' ss)"
    by blast
  with ev show ?thesis by (metis option.inject)
qed

section \<open>Properties of the broadcast loop\<close>

text \<open>Whatever ends the loop, the results appended are those of a prefix of the frame,
  in order; when no exception ends it, of the whole frame.\<close>

lemma loop_prefix:
  "loop net a tot k df self = (self', evs, x) \<Longrightarrow>
     \<exists>rs. results self' = results self @ rs \<and> appended evs = rs \<and> length rs \<le> length df
        \<and> map (\<lambda>r. (Str (name r), email r)) rs
            = take (length rs) (map (\<lambda>(i, row). (col_nama row, col_email row)) df)
        \<and> (x = None \<longrightarrow> length rs = length df)"
proof (induction df arbitrary: k self self' evs x)
  case Nil
  then show ?case by simp
next
  case (Cons p rest)
  obtain idx row where p: "p = (idx, row)" by (cases p)
  show ?case
  proof (cases "is_str (col_nama row)")
    case False
    from send_single_email_not_str[OF False] Cons.prems p
    have "self' = self" "evs = []" "x \<noteq> None" by auto
    then show ?thesis by simp
  next
    case True
    then obtain nm where nm: "col_nama row = Str nm" by (cases "col_nama row") auto
    obtain self1 res where
      s: "send_single_email self (net k) (col_email row) (col_nama row)
             (subject a) (body a) (html_body a) (from_name a) None None = (self1, Inr res)"
      and r1: "results self1 = results self" and e: "email res = col_email row"
      and n: "Str (name res) = col_nama row"
      unfolding nm using send_single_email_returns by blast
    let ?self2 = "self1\<lparr>results := results self1 @ [res]\<rparr>"
    obtain self3 evs3 x3 where rec: "loop net a tot (Suc k) rest ?self2 = (self3, evs3, x3)"
      by (cases "loop net a tot (Suc k) rest ?self2") auto
    from Cons.IH[OF rec] obtain rs where
      ih: "results self3 = results ?self2 @ rs" "appended evs3 = rs" "length rs \<le> length rest"
        "map (\<lambda>r. (Str (name r), email r)) rs
           = take (length rs) (map (\<lambda>(i, row). (col_nama row, col_email row)) rest)"
        "x3 = None \<longrightarrow> length rs = length rest"
      by blast
    consider (zero) "batch_size a = 0"
      | (refused) "batch_size a \<noteq> 0" "(idx + 1) mod batch_size a = 0 \<and> idx + 1 < tot"
          "time_sleep (delay_seconds a) \<noteq> None"
      | (pause) "batch_size a \<noteq> 0" "(idx + 1) mod batch_size a = 0 \<and> idx + 1 < tot"
          "time_sleep (delay_seconds a) = None"
      | (go) "batch_size a \<noteq> 0" "\<not> ((idx + 1) mod batch_size a = 0 \<and> idx + 1 < tot)"
      by blast
    then show ?thesis
    proof cases
      case zero
      with Cons.prems p s have "self' = ?self2" "evs = [Appended res]" "x \<noteq> None"
        by (auto simp: Let_def)
      with r1 e n p show ?thesis by auto
    next
      case refused
      then obtain e0 where "time_sleep (delay_seconds a) = Some e0" by auto
      with refused p s have
        "loop net a tot k (p # rest) self = (?self2, [Appended res], Some e0)"
        by (simp add: Let_def)
      with Cons.prems have "self' = ?self2" "evs = [Appended res]" "x \<noteq> None"
        by auto
      with r1 e n p show ?thesis by auto
    next
      case pause
      with Cons.prems p s rec have "self' = self3"
        "evs = Appended res # Sleep (delay_seconds a) # evs3" "x = x3"
        by (simp_all add: Let_def)
      with r1 e n p ih show ?thesis by simp
    next
      case go
      with Cons.prems p s rec have "self' = self3" "evs = Appended res # evs3" "x = x3"
        by (simp_all add: Let_def)
      with r1 e n p ih show ?thesis by simp
    qed
  qed
qed


lemma appended_append: "appended (xs @ ys) = appended xs @ appended ys"
  by (induction xs rule: appended.induct) simp_all

lemma appended_print_summary: "appended (fst (print_summary self)) = []"
  by (simp add: print_summary_def Let_def)

lemma pauses_after_append_summary:
  "pauses_after n (xs @ fst (print_summary self)) = pauses_after n xs"
  by (induction n xs rule: pauses_after.induct) (simp_all add: print_summary_def Let_def)

lemma send_bulk_email_results:
  assumes "send_bulk_email self net df a = (self', evs, ret)"
  shows "\<exists>evs0 x. loop net a (int (length df)) 0 df (self\<lparr>results := []\<rparr>) = (self', evs0, x)
        \<and> appended evs = appended evs0
        \<and> pauses_after 0 evs = pauses_after 0 evs0
        \<and> (x = None \<and> df \<noteq> [] \<longrightarrow> ret = Inr (results self'))
        \<and> (\<forall>e. x = Some e \<longrightarrow> ret = Inl e \<and> evs = evs0)"
proof -
  obtain s1 evs0 x where l: "loop net a (int (length df)) 0 df (self\<lparr>results := []\<rparr>) = (s1, evs0, x)"
    by (cases "loop net a (int (length df)) 0 df (self\<lparr>results := []\<rparr>)") auto
  from loop_prefix[OF l] have len: "x = None \<longrightarrow> length (results s1) = length df" by auto
  show ?thesis
  proof (cases x)
    case (Some e)
    with l assms show ?thesis
      by (auto simp: send_bulk_email_def Let_def)
  next
    case None
    obtain lines y where ps: "print_summary s1 = (lines, y)" by (cases "print_summary s1") auto
    have ap: "appended lines = []" using appended_print_summary[of s1] ps by simp
    have pa: "pauses_after 0 (evs0 @ lines) = pauses_after 0 evs0"
      using pauses_after_append_summary[of 0 evs0 s1] ps by simp
    have y: "df \<noteq> [] \<Longrightarrow> y = None"
      using ps len None by (auto simp: print_summary_def Let_def split: if_splits)
    from None l ps ap pa y assms show ?thesis
      by (cases y) (auto simp: send_bulk_email_def Let_def appended_append)
  qed
qed




text \<open>
  \<^bold>\<open>C3.\<close> The personalisation stands before the \<open>try\<close>. The loader keeps a row whose
  name field is empty as long as its email is good, and hands the name over as the
  float \<open>NaN\<close>; \<open>body.replace("{nama}", nan)\<close> raises \<open>TypeError\<close>, which leaves
  \<open>send_single_email\<close> whatever the other arguments are, and ends the broadcast
  before a single Send Result exists.
\<close>

theorem nameless_row_raises_type_error:
  "load_recipients_from_csv sample_read_nameless ''penerima.csv'' = Inr sample_frame_nameless
   \<and> send_single_email self post to_email (Float NaN) subj bdy html sender cc bcc
       = (self, Inl (Exn TypeError ''replace() argument 2 must be str, not float''))
   \<and> results (fst (send_bulk_email (init ''u'' ''k'') sample_net
         sample_frame_nameless (sample_args 10))) = []
   \<and> snd (snd (send_bulk_email (init ''u'' ''k'') sample_net
         sample_frame_nameless (sample_args 10)))
       = Inl (Exn TypeError ''replace() argument 2 must be str, not float'')"
proof -
  have a: "load_recipients_from_csv sample_read_nameless ''penerima.csv''
      = Inr sample_frame_nameless"
    by (simp add: load_defs sample_read_nameless_def sample_table_nameless_def
          sample_frame_nameless_def upt_rec)
  have b: "send_single_email self post to_email (Float NaN) subj bdy html sender cc bcc
       = (self, Inl (Exn TypeError ''replace() argument 2 must be str, not float''))"
    by (simp add: send_single_email_def)
  have c: "send_bulk_email (init ''u'' ''k'') sample_net sample_frame_nameless (sample_args 10)
      = (init ''u'' ''k'', [], Inl (Exn TypeError ''replace() argument 2 must be str, not float''))"
    by (simp add: send_bulk_email_def send_single_email_def sample_frame_nameless_def
          sample_args_def init_def Let_def)
  show ?thesis using a b c by (simp add: init_def)
qed

section \<open>Pacing\<close>

text \<open>On a frame whose labels are \<open>0, 1, ..., N - 1\<close>, as \<open>read_csv\<close> makes them, and
  whose names are strings, the label is the position: the loop sleeps after every
  \<open>batch_size\<close>-th recipient that is not the last one. For 25 recipients and batches of
  10 that is after the 10th and the 20th.\<close>

lemma loop_pauses_range_index:
  assumes "batch_size a \<noteq> 0" and "time_sleep (delay_seconds a) = None"
  shows "map fst df = map int [k..<N] \<Longrightarrow> \<forall>(i, row) \<in> set df. is_str (col_nama row) \<Longrightarrow>
     pauses_after k (fst (snd (loop net a (int N) k df self)))
       = filter (\<lambda>j. int j mod batch_size a = 0) [Suc k..<N]"
proof (induction df arbitrary: k self)
  case Nil
  then have "N \<le> k" by auto
  then show ?case by simp
next
  case (Cons p rest)
  obtain idx row where p: "p = (idx, row)" by (cases p)
  from Cons.prems(1) have kN: "k < N" by (cases "k < N") auto
  then have up: "[k..<N] = k # [Suc k..<N]" by (simp add: upt_rec)
  with Cons.prems(1) p have idx: "idx = int k" and rest: "map fst rest = map int [Suc k..<N]"
    by simp_all
  from Cons.prems(2) have strs: "\<forall>(i, row) \<in> set rest. is_str (col_nama row)" by simp
  from Cons.prems(2) p obtain nm where nm: "col_nama row = Str nm"
    by (cases "col_nama row") auto
  obtain self1 res where
    s: "send_single_email self (net k) (col_email row) (col_nama row)
           (subject a) (body a) (html_body a) (from_name a) None None = (self1, Inr res)"
    unfolding nm using send_single_email_returns by blast
  let ?self2 = "self1\<lparr>results := results self1 @ [res]\<rparr>"
  have ih: "pauses_after (Suc k) (fst (snd (loop net a (int N) (Suc k) rest ?self2)))
       = filter (\<lambda>j. int j mod batch_size a = 0) [Suc (Suc k)..<N]"
    by (rule Cons.IH[OF rest strs])
  have c: "((idx + 1) mod batch_size a = 0 \<and> idx + 1 < int N)
       = (int (Suc k) mod batch_size a = 0 \<and> Suc k < N)"
    using idx by (auto simp: add.commute)
  show ?case
  proof (cases "Suc k < N")
    case True
    then have "[Suc k..<N] = Suc k # [Suc (Suc k)..<N]" by (simp add: upt_rec)
    with p s ih c assms True show ?thesis
      by (auto simp: Let_def split: prod.splits)
  next
    case False
    with kN have "[Suc k..<N] = []" by simp
    moreover from False kN rest have "rest = []" by simp
    ultimately show ?thesis using p s c assms False
      by (auto simp: Let_def split: prod.splits)
  qed
qed

lemma pacing_by_position_on_range_index:
  assumes "batch_size a \<noteq> 0" and "time_sleep (delay_seconds a) = None"
    and "map fst df = map int [0..<length df]"
    and "\<forall>(i, row) \<in> set df. is_str (col_nama row)"
  shows "pauses_after 0 (fst (snd (send_bulk_email self net df a)))
       = filter (\<lambda>j. int j mod batch_size a = 0) [1..<length df]"
proof -
  obtain self' evs ret where b: "send_bulk_email self net df a = (self', evs, ret)"
    by (cases "send_bulk_email self net df a") auto
  from send_bulk_email_results[OF b] obtain evs0 x where
    l: "loop net a (int (length df)) 0 df (self\<lparr>results := []\<rparr>) = (self', evs0, x)"
    and pe: "pauses_after 0 evs = pauses_after 0 evs0"
    by blast
  from loop_pauses_range_index[OF assms(1,2), of df 0 "length df" net "self\<lparr>results := []\<rparr>"]
    assms(3,4) l
  have "pauses_after 0 evs0 = filter (\<lambda>j. int j mod batch_size a = 0) [1..<length df]"
    by simp
  with b pe show ?thesis by simp
qed

lemma pacing_25_recipients:
  "pauses_after 0 (fst (snd (send_bulk_email self net
       (sample_frame (map int [0..<25])) (sample_args 10)))) = [10, 20]"
proof -
  have "pauses_after 0 (fst (snd (send_bulk_email self net
       (sample_frame (map int [0..<25])) (sample_args 10))))
     = filter (\<lambda>j. int j mod batch_size (sample_args 10) = 0)
         [1..<length (sample_frame (map int [0..<25]))]"
    by (rule pacing_by_position_on_range_index)
       (simp_all add: sample_args_def sample_frame_def comp_def time_sleep_def)
  also have "\<dots> = [10, 20]"
    by (simp add: sample_args_def sample_frame_def upt_rec)
  finally show ?thesis .
qed

text \<open>
  \<^bold>\<open>C4.\<close> The pause is decided by the index label that \<open>iterrows()\<close> yields, not by the
  position. The loader removes rows and keeps the labels of the others: for the sample
  file, whose first row is malformed, it returns three recipients labelled 1, 2, 3. With
  \<open>batch_size = 2\<close> the loop then sleeps once, after the first recipient, where pacing
  by position sleeps once after the second.
\<close>

theorem pacing_follows_index_labels:
  "load_recipients_from_csv sample_read_csv ''penerima.csv'' = Inr (sample_frame [1, 2, 3])
   \<and> pauses_after 0 (fst (snd (send_bulk_email (init ''u'' ''k'') sample_net
          (sample_frame [1, 2, 3]) (sample_args 2)))) = [1]
   \<and> filter (\<lambda>j. int j mod 2 = 0) [1..<3] = [2]"
proof -
  have a: "load_recipients_from_csv sample_read_csv ''penerima.csv'' = Inr (sample_frame [1, 2, 3])"
    by (simp add: load_defs sample_table_def sample_read_csv_def sample_frame_def upt_rec)
  have b: "pauses_after 0 (fst (snd (send_bulk_email (init ''u'' ''k'') sample_net
          (sample_frame [1, 2, 3]) (sample_args 2)))) = [1]"
    by (simp add: eval_defs)
  have c: "filter (\<lambda>j. int j mod 2 = 0) [1..<3] = [2]"
    by (simp add: upt_rec)
  show ?thesis using a b c by blast
qed

text \<open>
  \<^bold>\<open>C5.\<close> With an empty results list the summary prints the three counts and then
  divides by \<open>len(self.results)\<close>, which raises \<open>ZeroDivisionError\<close>: for a fresh
  broadcaster, and at the end of \<open>send_bulk_email\<close> on an empty frame, whatever the other
  arguments.
\<close>

theorem summary_divides_by_zero:
  "print_summary (init url key)
     = ([Total_Email 0, Berhasil 0, Gagal 0], Some (Exn ZeroDivisionError ''division by zero''))
   \<and> snd (snd (send_bulk_email self net [] a)) = Inl (Exn ZeroDivisionError ''division by zero'')"
  by (simp add: print_summary_def send_bulk_email_def init_def Let_def)

text \<open>
  \<^bold>\<open>C6.\<close> Only \<open>self.results\<close> is reset at the start of \<open>send_bulk_email\<close>; the counters
  are set in \<open>__init__\<close> alone. A first broadcast to one recipient reports 1 sent of 1
  and a rate of 100; the same broadcast repeated on the same object reports 2 sent of 1
  and a rate of 200.
\<close>

theorem counters_survive_next_broadcast:
  "summary_lines (fst (snd (send_bulk_email (init ''u'' ''k'') sample_net
        (sample_frame [0]) (sample_args 10))))
     = [Total_Email 1, Berhasil 1, Gagal 0, Success_Rate 100]
   \<and> summary_lines (fst (snd (send_bulk_email
        (fst (send_bulk_email (init ''u'' ''k'') sample_net (sample_frame [0]) (sample_args 10)))
        sample_net (sample_frame [0]) (sample_args 10))))
     = [Total_Email 1, Berhasil 2, Gagal 0, Success_Rate 200]"
  by (simp add: eval_defs)

section \<open>The outcome of a single send\<close>

text \<open>The body of the \<open>try\<close> on a response whose body is a JSON object.\<close>

lemma try_body_obj:
  assumes "http r = Response c (Inr (JObj kv))"
  shows "try_body self to_email to_name r =
     (if c = 200 \<and> truthy (dict_get kv ''success'' JNull) then
        (case py_get (dict_get kv ''data'' (JObj [])) ''messageId'' JNull of
           Inl e \<Rightarrow> (self\<lparr>sent_count := sent_count self + 1\<rparr>, Inl e)
         | Inr mid \<Rightarrow>
            (self\<lparr>sent_count := sent_count self + 1\<rparr>,
             Inr \<lparr>status = ''success'', email = to_email, name = to_name,
                  message = JStr ''Email sent successfully'',
                  message_id = Some mid, timestamp = now r\<rparr>))
      else
        (case py_get (dict_get kv ''error'' (JObj [])) ''message'' (JStr ''Unknown error'') of
           Inl e \<Rightarrow> (self\<lparr>failed_count := failed_count self + 1\<rparr>, Inl e)
         | Inr m \<Rightarrow>
            (self\<lparr>failed_count := failed_count self + 1\<rparr>,
             Inr (failed_result to_email to_name m (now r)))))"
  using assms by (simp add: try_body_def Let_def)

lemma try_body_success:
  assumes "http r = Response 200 (Inr (JObj kv))" and "truthy (dict_get kv ''success'' JNull)"
    and "dict_get kv ''data'' (JObj []) = JObj d"
  shows "try_body self to_email to_name r =
     (self\<lparr>sent_count := sent_count self + 1\<rparr>,
      Inr \<lparr>status = ''success'', email = to_email, name = to_name,
           message = JStr ''Email sent successfully'',
           message_id = Some (dict_get d ''messageId'' JNull), timestamp = now r\<rparr>)"
  using assms by (simp add: try_body_def Let_def)

lemma try_body_not_success:
  assumes "http r = Response c (Inr (JObj kv))"
    and "\<not> (c = 200 \<and> truthy (dict_get kv ''success'' JNull))"
    and "dict_get kv ''error'' (JObj []) = JObj er"
  shows "try_body self to_email to_name r =
     (self\<lparr>failed_count := failed_count self + 1\<rparr>,
      Inr (failed_result to_email to_name (dict_get er ''message'' (JStr ''Unknown error'')) (now r)))"
  using assms by (auto simp: try_body_def Let_def)

text \<open>On the documented shapes the send does what is expected of it: a status-200
  object with \<open>success: true\<close> and an object (or no) \<open>data\<close> gives a success result with
  \<open>data.messageId\<close> and counts one email as sent; an object that is not a success and
  whose \<open>error\<close> is an object (or absent) gives a failed result with \<open>error.message\<close>
  and counts one failure.\<close>

lemma send_single_email_documented_shapes:
  "(http (post (build_payload self to_email nm subj bdy html sender cc bcc))
        = Response 200 (Inr (JObj kv))
      \<and> dict_get kv ''success'' JNull = JBool True
      \<and> dict_get kv ''data'' (JObj []) = JObj d \<longrightarrow>
    send_single_email self post to_email (Str nm) subj bdy html sender cc bcc
      = (self\<lparr>sent_count := sent_count self + 1\<rparr>,
         Inr \<lparr>status = ''success'', email = to_email, name = nm,
              message = JStr ''Email sent successfully'',
              message_id = Some (dict_get d ''messageId'' JNull),
              timestamp = now (post (build_payload self to_email nm subj bdy html sender cc bcc))\<rparr>))
   \<and> (http (post (build_payload self to_email nm subj bdy html sender cc bcc))
        = Response c (Inr (JObj kv'))
      \<and> \<not> (c = 200 \<and> truthy (dict_get kv' ''success'' JNull))
      \<and> dict_get kv' ''error'' (JObj []) = JObj er \<longrightarrow>
    send_single_email self post to_email (Str nm) subj bdy html sender cc bcc
      = (self\<lparr>failed_count := failed_count self + 1\<rparr>,
         Inr (failed_result to_email nm (dict_get er ''message'' (JStr ''Unknown error''))
                (now (post (build_payload self to_email nm subj bdy html sender cc bcc))))))"
proof (intro conjI impI)
  let ?r = "post (build_payload self to_email nm subj bdy html sender cc bcc)"
  assume "http ?r = Response 200 (Inr (JObj kv))
      \<and> dict_get kv ''success'' JNull = JBool True
      \<and> dict_get kv ''data'' (JObj []) = JObj d"
  then have "try_body self to_email nm ?r =
     (self\<lparr>sent_count := sent_count self + 1\<rparr>,
      Inr \<lparr>status = ''success'', email = to_email, name = nm,
           message = JStr ''Email sent successfully'',
           message_id = Some (dict_get d ''messageId'' JNull), timestamp = now ?r\<rparr>)"
    using try_body_success[of ?r kv d self to_email nm] by simp
  then show "send_single_email self post to_email (Str nm) subj bdy html sender cc bcc
      = (self\<lparr>sent_count := sent_count self + 1\<rparr>,
         Inr \<lparr>status = ''success'', email = to_email, name = nm,
              message = JStr ''Email sent successfully'',
              message_id = Some (dict_get d ''messageId'' JNull), timestamp = now ?r\<rparr>)"
    by (simp add: send_single_email_def Let_def)
next
  let ?r = "post (build_payload self to_email nm subj bdy html sender cc bcc)"
  assume "http ?r = Response c (Inr (JObj kv'))
      \<and> \<not> (c = 200 \<and> truthy (dict_get kv' ''success'' JNull))
      \<and> dict_get kv' ''error'' (JObj []) = JObj er"
  then have "try_body self to_email nm ?r =
     (self\<lparr>failed_count := failed_count self + 1\<rparr>,
      Inr (failed_result to_email nm (dict_get er ''message'' (JStr ''Unknown error'')) (now ?r)))"
    using try_body_not_success[of ?r c kv' er self to_email nm] by blast
  then show "send_single_email self post to_email (Str nm) subj bdy html sender cc bcc
      = (self\<lparr>failed_count := failed_count self + 1\<rparr>,
         Inr (failed_result to_email nm (dict_get er ''message'' (JStr ''Unknown error''))
                (now ?r)))"
    by (simp add: send_single_email_def Let_def)
qed

text \<open>
  \<^bold>\<open>C2.\<close> A response with status code 200 and \<open>success: true\<close> whose \<open>data\<close> is \<open>null\<close>:
  the email is counted as sent, then \<open>result.get('data', {})\<close> is \<open>None\<close>, its \<open>.get\<close>
  raises \<open>AttributeError\<close>, and the last handler counts a failure as well and returns
  a failed result: one send, one sent and one failed. In the same way a non-success
  response whose \<open>error\<close> is the string \<open>Quota exceeded\<close> is counted as two failures
  and its result carries the text of the \<open>AttributeError\<close>, not the provider's message.
\<close>

theorem success_with_null_data_is_reported_failed:
  "http sample_null_data
     = Response 200 (Inr (JObj [(''success'', JBool True), (''data'', JNull)]))
   \<and> map_sum id status
        (snd (send_single_email (init ''u'' ''k'') sample_post_null_data ''alice@example.com''
           (Str ''Alice'') ''Halo {nama}'' ''Yth. {nama}'' None ''Broadcast System'' None None))
       = Inr ''failed''
   \<and> sent_count
        (fst (send_single_email (init ''u'' ''k'') sample_post_null_data ''alice@example.com''
           (Str ''Alice'') ''Halo {nama}'' ''Yth. {nama}'' None ''Broadcast System'' None None))
       = 1
   \<and> failed_count
        (fst (send_single_email (init ''u'' ''k'') sample_post_null_data ''alice@example.com''
           (Str ''Alice'') ''Halo {nama}'' ''Yth. {nama}'' None ''Broadcast System'' None None))
       = 1
   \<and> http sample_error_string
     = Response 500 (Inr (JObj [(''error'', JStr ''Quota exceeded'')]))
   \<and> map_sum id message
        (snd (send_single_email (init ''u'' ''k'') sample_post_error_string ''alice@example.com''
           (Str ''Alice'') ''Halo {nama}'' ''Yth. {nama}'' None ''Broadcast System'' None None))
       = Inr (JStr (''Unexpected error: '' @ [CHR 0x27] @ ''str'' @ [CHR 0x27] @
                '' object has no attribute '' @ [CHR 0x27] @ ''get'' @ [CHR 0x27]))
   \<and> failed_count
        (fst (send_single_email (init ''u'' ''k'') sample_post_error_string ''alice@example.com''
           (Str ''Alice'') ''Halo {nama}'' ''Yth. {nama}'' None ''Broadcast System'' None None))
       = 2"
  by (simp add: send_single_email_def try_body_def handlers_def dict_get_def failed_result_def
        sample_post_null_data_def sample_null_data_def sample_post_error_string_def
        sample_error_string_def init_def Let_def)

section \<open>Properties of the loader\<close>

text \<open>The matcher accepts exactly the language of the pattern: a non-empty run of
  \<open>[^\s@]\<close>, an \<open>@\<close>, a second run, a dot, a third run, and then the end of the string or
  one final newline.\<close>

lemma plus_then_iff:
  "plus_then A k s \<longleftrightarrow> (\<exists>u v. s = u @ v \<and> u \<noteq> [] \<and> list_all A u \<and> k v)"
proof (induction s)
  case Nil
  show ?case by simp
next
  case (Cons c cs)
  show ?case
  proof
    assume "plus_then A k (c # cs)"
    then have c: "A c" and d: "k cs \<or> plus_then A k cs" by simp_all
    from d show "\<exists>u v. c # cs = u @ v \<and> u \<noteq> [] \<and> list_all A u \<and> k v"
    proof
      assume "k cs"
      with c have "c # cs = [c] @ cs \<and> [c] \<noteq> [] \<and> list_all A [c] \<and> k cs" by simp
      then show ?thesis by blast
    next
      assume "plus_then A k cs"
      with Cons.IH obtain u v where "cs = u @ v" "u \<noteq> []" "list_all A u" "k v" by blast
      with c have "c # cs = (c # u) @ v \<and> c # u \<noteq> [] \<and> list_all A (c # u) \<and> k v" by simp
      then show ?thesis by blast
    qed
  next
    assume "\<exists>u v. c # cs = u @ v \<and> u \<noteq> [] \<and> list_all A u \<and> k v"
    then obtain u v where uv: "c # cs = u @ v" "u \<noteq> []" "list_all A u" "k v" by blast
    then obtain u' where u: "u = c # u'" by (cases u) auto
    with uv have c: "A c" and cs: "cs = u' @ v" and a: "list_all A u'" by simp_all
    show "plus_then A k (c # cs)"
    proof (cases "u' = []")
      case True
      with cs uv(4) c show ?thesis by simp
    next
      case False
      with cs a uv(4) Cons.IH have "plus_then A k cs" by blast
      with c show ?thesis by simp
    qed
  qed
qed

lemma lit_then_iff: "lit_then x k s \<longleftrightarrow> (\<exists>v. s = x # v \<and> k v)"
  by (cases s) auto

lemma email_valid_iff:
  "email_valid s \<longleftrightarrow>
     (\<exists>u v w t. s = u @ ''@'' @ v @ ''.'' @ w @ t
        \<and> u \<noteq> [] \<and> v \<noteq> [] \<and> w \<noteq> []
        \<and> list_all local_char u \<and> list_all local_char v \<and> list_all local_char w
        \<and> (t = [] \<or> t = [CHR 0x0A]))"
  unfolding email_valid_def plus_then_iff lit_then_iff at_end_def
  by (auto; blast)

text \<open>The rows of the labelled table are the rows of the file.\<close>

lemma labelled_rows:
  "(\<exists>x \<in> set (zip (map int [0..<length cs]) cs). P (snd x)) = (\<exists>r \<in> set cs. P r)"
proof -
  have "map snd (zip (map int [0..<length cs]) cs) = cs"
    by (simp add: map_snd_zip)
  then have "snd ` set (zip (map int [0..<length cs]) cs) = set cs"
    by (metis set_map)
  then show ?thesis by (metis (no_types, lifting) image_iff)
qed

text \<open>When the body of the \<open>try\<close> returns: both columns are there, the email column
  is of object dtype, and none of its cells is a number.\<close>

lemma load_body_returns_iff:
  "(\<exists>df. load_body t = Inr df) =
     (''nama'' \<in> set (columns t) \<and> ''email'' \<in> set (columns t)
      \<and> (cells t = [] \<or> (\<exists>r \<in> set (cells t). is_str (cell_email r)))
      \<and> (\<forall>r \<in> set (cells t). is_str (cell_email r) \<or> isna (cell_email r)))"
proof -
  let ?df0 = "zip (map int [0..<length (cells t)]) (cells t)"
  let ?dropped = "filter (\<lambda>(i, r). \<not> isna (cell_email r)) ?df0"
  have c1: "(cells t \<noteq> [] \<and> list_all (\<lambda>r. \<not> is_str (cell_email r)) (cells t))
      = (\<not> (cells t = [] \<or> (\<exists>r \<in> set (cells t). is_str (cell_email r))))"
    by (auto simp: list_all_iff)
  have "list_ex (\<lambda>(i, r). \<not> is_str (cell_email r)) ?dropped
      = (\<exists>x \<in> set ?df0. \<not> isna (cell_email (snd x)) \<and> \<not> is_str (cell_email (snd x)))"
    by (force simp: list_ex_iff)
  also have "\<dots> = (\<exists>r \<in> set (cells t). \<not> isna (cell_email r) \<and> \<not> is_str (cell_email r))"
    by (rule labelled_rows)
  finally have c2: "list_ex (\<lambda>(i, r). \<not> is_str (cell_email r)) ?dropped
      = (\<not> (\<forall>r \<in> set (cells t). is_str (cell_email r) \<or> isna (cell_email r)))"
    by auto
  show ?thesis
    unfolding load_body_def Let_def c1 c2 by auto
qed

lemma load_body_member:
  assumes "load_body t = Inr df" and "(i, row) \<in> set df"
  shows "email_valid (col_email row)
    \<and> (\<exists>j<length (cells t). i = int j \<and> cell_email (cells t ! j) = Str (col_email row)
          \<and> cell_nama (cells t ! j) = col_nama row)"
proof -
  let ?df0 = "zip (map int [0..<length (cells t)]) (cells t)"
  let ?dropped = "filter (\<lambda>(i, r). \<not> isna (cell_email r)) ?df0"
  let ?f = "\<lambda>(i, r). case cell_email r of
                Str e \<Rightarrow> Some (i, \<lparr>col_nama = cell_nama r, col_email = e\<rparr>)
              | Integer n \<Rightarrow> None
              | Float f \<Rightarrow> None"
  let ?df1 = "List.map_filter ?f ?dropped"
  let ?invalid = "filter (\<lambda>(i, r). \<not> email_valid (col_email r)) ?df1"
  from assms(1) have df: "df = (if length ?invalid > 0
        then filter (\<lambda>(i, r). email_valid (col_email r)) ?df1 else ?df1)"
    by (simp add: load_body_def Let_def split: if_splits)
  have in1: "(i, row) \<in> set ?df1" using assms(2) df by (auto split: if_splits)
  have valid: "email_valid (col_email row)"
  proof (cases "length ?invalid > 0")
    case True
    with df assms(2) show ?thesis by auto
  next
    case False
    then have "?invalid = []" by simp
    then have "\<forall>x \<in> set ?df1. \<not> (case x of (i, r) \<Rightarrow> \<not> email_valid (col_email r))"
      by (simp add: filter_empty_conv)
    with in1 show ?thesis by auto
  qed
  from in1 obtain x where x: "x \<in> set ?dropped" "?f x = Some (i, row)"
    by (auto simp: List.map_filter_def)
  obtain i0 r where xr: "x = (i0, r)" by (cases x)
  from x(2) xr have r: "i0 = i" "cell_email r = Str (col_email row)" "cell_nama r = col_nama row"
    by (auto split: cell.splits)
  from x(1) xr have "(i0, r) \<in> set ?df0" by simp
  then obtain j where j: "j < length (cells t)" "i0 = int j" "r = cells t ! j"
    by (auto simp: in_set_zip)
  with r valid show ?thesis by auto
qed

lemma load_body_keeps_valid:
  assumes "load_body t = Inr df" and "j < length (cells t)"
    and "cell_email (cells t ! j) = Str e" and "email_valid e"
  shows "(int j, \<lparr>col_nama = cell_nama (cells t ! j), col_email = e\<rparr>) \<in> set df"
proof -
  let ?df0 = "zip (map int [0..<length (cells t)]) (cells t)"
  let ?dropped = "filter (\<lambda>(i, r). \<not> isna (cell_email r)) ?df0"
  let ?f = "\<lambda>(i, r). case cell_email r of
                Str e \<Rightarrow> Some (i, \<lparr>col_nama = cell_nama r, col_email = e\<rparr>)
              | Integer n \<Rightarrow> None
              | Float f \<Rightarrow> None"
  let ?df1 = "List.map_filter ?f ?dropped"
  let ?invalid = "filter (\<lambda>(i, r). \<not> email_valid (col_email r)) ?df1"
  let ?row = "\<lparr>col_nama = cell_nama (cells t ! j), col_email = e\<rparr>"
  from assms(1) have df: "df = (if length ?invalid > 0
        then filter (\<lambda>(i, r). email_valid (col_email r)) ?df1 else ?df1)"
    by (simp add: load_body_def Let_def split: if_splits)
  have "(int j, cells t ! j) \<in> set ?df0"
    using assms(2) by (auto simp: in_set_zip intro!: exI[of _ j])
  then have "(int j, cells t ! j) \<in> set ?dropped"
    using assms(3) by (simp add: isna_def)
  moreover have "?f (int j, cells t ! j) = Some (int j, ?row)"
    using assms(3) by simp
  ultimately have "(int j, ?row) \<in> set ?df1"
    unfolding List.map_filter_def by force
  with df assms(4) show ?thesis by auto
qed

lemma load_ok:
  "read_csv file_path = Inr t \<Longrightarrow> load_recipients_from_csv read_csv file_path = Inr df
     \<Longrightarrow> load_body t = Inr df"
  by (auto simp: load_recipients_from_csv_def split: sum.splits exn.splits if_splits)

lemma load_returns_iff:
  "read_csv file_path = Inr t \<Longrightarrow>
     (\<exists>df. load_recipients_from_csv read_csv file_path = Inr df) = (\<exists>df. load_body t = Inr df)"
  by (cases "load_body t")
     (auto simp: load_recipients_from_csv_def split: sum.splits exn.splits if_splits)

lemma bulk_results_from_frame:
  assumes "res \<in> set (results (fst (send_bulk_email self net df a)))"
  shows "\<exists>(i, row) \<in> set df. email res = col_email row \<and> Str (name res) = col_nama row"
proof -
  obtain self' evs ret where b: "send_bulk_email self net df a = (self', evs, ret)"
    by (cases "send_bulk_email self net df a") auto
  from send_bulk_email_results[OF b] obtain evs0 x where
    l: "loop net a (int (length df)) 0 df (self\<lparr>results := []\<rparr>) = (self', evs0, x)"
    by blast
  from loop_prefix[OF l] have
    m: "map (\<lambda>r. (Str (name r), email r)) (results self')
         = take (length (results self')) (map (\<lambda>(i, row). (col_nama row, col_email row)) df)"
    by auto
  from assms b have "res \<in> set (results self')" by simp
  then have "(Str (name res), email res)
      \<in> set (map (\<lambda>r. (Str (name r), email r)) (results self'))"
    by auto
  with m have "(Str (name res), email res)
      \<in> set (take (length (results self')) (map (\<lambda>(i, row). (col_nama row, col_email row)) df))"
    by simp
  then have "(Str (name res), email res)
      \<in> set (map (\<lambda>(i, row). (col_nama row, col_email row)) df)"
    by (rule in_set_takeD)
  then show ?thesis by auto
qed

text \<open>
  \<^bold>\<open>C8.\<close> For every file: if \<open>read_csv\<close> raises, the loader raises; if it delivers a
  table, the loader returns a frame exactly when both columns are there and the email
  column can be matched (the table has no row, or one of the email cells is a string,
  and none is a number), and it raises otherwise, so that no row is loaded at all.
  Every row of a returned frame is a row of the table whose email cell is a string
  that matches the pattern, under the label of its place in the table. A row whose
  email cell is empty, or is not a string that matches, is under no label of the frame.
  Every Send Result of a broadcast over the frame carries the email of one of its
  rows, hence an email that matches.
\<close>

theorem loader_excludes_invalid_rows:
  "(\<forall>e. read_csv file_path = Inl e \<longrightarrow>
       (\<exists>e'. load_recipients_from_csv read_csv file_path = Inl e'))
   \<and> (\<forall>t. read_csv file_path = Inr t \<longrightarrow>
        ((''nama'' \<in> set (columns t) \<and> ''email'' \<in> set (columns t)
            \<and> (cells t = [] \<or> (\<exists>r \<in> set (cells t). is_str (cell_email r)))
            \<and> (\<forall>r \<in> set (cells t). is_str (cell_email r) \<or> isna (cell_email r)))
           = (\<exists>df. load_recipients_from_csv read_csv file_path = Inr df))
        \<and> (\<forall>df. load_recipients_from_csv read_csv file_path = Inr df \<longrightarrow>
              (\<forall>(i, row) \<in> set df. email_valid (col_email row)
                  \<and> (\<exists>j<length (cells t). i = int j
                        \<and> cell_email (cells t ! j) = Str (col_email row)
                        \<and> cell_nama (cells t ! j) = col_nama row))
            \<and> (\<forall>j<length (cells t).
                  (\<forall>e. cell_email (cells t ! j) = Str e \<longrightarrow> \<not> email_valid e)
                    \<longrightarrow> int j \<notin> fst ` set df)
            \<and> (\<forall>res \<in> set (results (fst (send_bulk_email self net df a))).
                  email_valid (email res)
                  \<and> (\<exists>(i, row) \<in> set df. email res = col_email row))))"
proof -
  have p1: "\<forall>e. read_csv file_path = Inl e \<longrightarrow>
       (\<exists>e'. load_recipients_from_csv read_csv file_path = Inl e')"
  proof (intro allI impI)
    fix e
    assume "read_csv file_path = Inl e"
    then show "\<exists>e'. load_recipients_from_csv read_csv file_path = Inl e'"
      by (cases e) (simp add: load_recipients_from_csv_def)
  qed
  have p2: "(''nama'' \<in> set (columns t) \<and> ''email'' \<in> set (columns t)
            \<and> (cells t = [] \<or> (\<exists>r \<in> set (cells t). is_str (cell_email r)))
            \<and> (\<forall>r \<in> set (cells t). is_str (cell_email r) \<or> isna (cell_email r)))
           = (\<exists>df. load_recipients_from_csv read_csv file_path = Inr df)"
    if r: "read_csv file_path = Inr t" for t
    using load_returns_iff[where read_csv = read_csv and file_path = file_path and t = t, OF r]
      load_body_returns_iff[of t] by simp
  have p3: "(\<forall>(i, row) \<in> set df. email_valid (col_email row)
                  \<and> (\<exists>j<length (cells t). i = int j
                        \<and> cell_email (cells t ! j) = Str (col_email row)
                        \<and> cell_nama (cells t ! j) = col_nama row))
            \<and> (\<forall>j<length (cells t).
                  (\<forall>e. cell_email (cells t ! j) = Str e \<longrightarrow> \<not> email_valid e)
                    \<longrightarrow> int j \<notin> fst ` set df)
            \<and> (\<forall>res \<in> set (results (fst (send_bulk_email self net df a))).
                  email_valid (email res)
                  \<and> (\<exists>(i, row) \<in> set df. email res = col_email row))"
    if r: "read_csv file_path = Inr t"
      and l: "load_recipients_from_csv read_csv file_path = Inr df" for t df
  proof -
    note lb = load_ok[OF r l]
    have a: "\<forall>(i, row) \<in> set df. email_valid (col_email row)
          \<and> (\<exists>j<length (cells t). i = int j
                \<and> cell_email (cells t ! j) = Str (col_email row)
                \<and> cell_nama (cells t ! j) = col_nama row)"
      using load_body_member[OF lb] by blast
    have b: "\<forall>j<length (cells t).
          (\<forall>e. cell_email (cells t ! j) = Str e \<longrightarrow> \<not> email_valid e)
            \<longrightarrow> int j \<notin> fst ` set df"
    proof (intro allI impI notI)
      fix j
      assume j: "j < length (cells t)"
        and bad: "\<forall>e. cell_email (cells t ! j) = Str e \<longrightarrow> \<not> email_valid e"
        and "int j \<in> fst ` set df"
      then obtain row where "(int j, row) \<in> set df" by force
      from load_body_member[OF lb this] obtain j' where
        "email_valid (col_email row)" "int j = int j'"
        "cell_email (cells t ! j') = Str (col_email row)" by blast
      with bad show False by simp
    qed
    have c: "\<forall>res \<in> set (results (fst (send_bulk_email self net df a))).
          email_valid (email res) \<and> (\<exists>(i, row) \<in> set df. email res = col_email row)"
    proof
      fix res
      assume "res \<in> set (results (fst (send_bulk_email self net df a)))"
      from bulk_results_from_frame[OF this] obtain i row where
        ir: "(i, row) \<in> set df" "email res = col_email row" by blast
      with a have "email_valid (email res)" by auto
      with ir show "email_valid (email res) \<and> (\<exists>(i, row) \<in> set df. email res = col_email row)"
        by auto
    qed
    from a b c show ?thesis by (intro conjI)
  qed
  show ?thesis
  proof (rule conjI[OF p1], rule allI, rule impI, rule conjI)
    fix t
    assume r: "read_csv file_path = Inr t"
    show "(''nama'' \<in> set (columns t) \<and> ''email'' \<in> set (columns t)
            \<and> (cells t = [] \<or> (\<exists>r \<in> set (cells t). is_str (cell_email r)))
            \<and> (\<forall>r \<in> set (cells t). is_str (cell_email r) \<or> isna (cell_email r)))
           = (\<exists>df. load_recipients_from_csv read_csv file_path = Inr df)"
      by (rule p2[OF r])
    show "\<forall>df. load_recipients_from_csv read_csv file_path = Inr df \<longrightarrow>
              (\<forall>(i, row) \<in> set df. email_valid (col_email row)
                  \<and> (\<exists>j<length (cells t). i = int j
                        \<and> cell_email (cells t ! j) = Str (col_email row)
                        \<and> cell_nama (cells t ! j) = col_nama row))
            \<and> (\<forall>j<length (cells t).
                  (\<forall>e. cell_email (cells t ! j) = Str e \<longrightarrow> \<not> email_valid e)
                    \<longrightarrow> int j \<notin> fst ` set df)
            \<and> (\<forall>res \<in> set (results (fst (send_bulk_email self net df a))).
                  email_valid (email res)
                  \<and> (\<exists>(i, row) \<in> set df. email res = col_email row))"
    proof (rule allI, rule impI)
      fix df
      assume l: "load_recipients_from_csv read_csv file_path = Inr df"
      show "(\<forall>(i, row) \<in> set df. email_valid (col_email row)
                  \<and> (\<exists>j<length (cells t). i = int j
                        \<and> cell_email (cells t ! j) = Str (col_email row)
                        \<and> cell_nama (cells t ! j) = col_nama row))
            \<and> (\<forall>j<length (cells t).
                  (\<forall>e. cell_email (cells t ! j) = Str e \<longrightarrow> \<not> email_valid e)
                    \<longrightarrow> int j \<notin> fst ` set df)
            \<and> (\<forall>res \<in> set (results (fst (send_bulk_email self net df a))).
                  email_valid (email res)
                  \<and> (\<exists>(i, row) \<in> set df. email res = col_email row))"
        by (rule p3[OF r l])
    qed
  qed
qed

theorem loader_excludes_invalid_rows_witness:
  "sample_read_gaps ''penerima.csv'' = Inr sample_table_gaps
   \<and> cell_email (cells sample_table_gaps ! 0) = Float NaN
   \<and> cell_email (cells sample_table_gaps ! 2) = Str ''not-an-email''
   \<and> \<not> email_valid ''not-an-email''
   \<and> load_recipients_from_csv sample_read_gaps ''penerima.csv'' = Inr sample_frame_gaps
   \<and> map fst sample_frame_gaps = [1, 3]
   \<and> 0 \<notin> fst ` set sample_frame_gaps
   \<and> 2 \<notin> fst ` set sample_frame_gaps
   \<and> list_all (\<lambda>res. email_valid (email res))
        (results (fst (send_bulk_email (init ''u'' ''k'') sample_net
           sample_frame_gaps (sample_args 10))))
   \<and> sample_read_no_emails ''penerima.csv'' = Inr sample_table_no_emails
   \<and> list_all (\<lambda>r. isna (cell_email r)) (cells sample_table_no_emails)
   \<and> load_recipients_from_csv sample_read_no_emails ''penerima.csv''
       = Inl (Exn Exception
           ''Error membaca file CSV: Can only use .str accessor with string values!'')"
proof -
  have h1: "sample_read_gaps ''penerima.csv'' = Inr sample_table_gaps"
    by (simp add: sample_read_gaps_def)
  have e: "load_recipients_from_csv sample_read_gaps ''penerima.csv'' = Inr sample_frame_gaps"
    by (simp add: load_defs sample_read_gaps_def sample_table_gaps_def sample_frame_gaps_def
          upt_rec)
  note inst = loader_excludes_invalid_rows[where read_csv = sample_read_gaps
      and file_path = "''penerima.csv''" and self = "init ''u'' ''k''"
      and net = sample_net and a = "sample_args 10"]
  from inst h1 e
  have t: "(\<forall>j<length (cells sample_table_gaps).
          (\<forall>e. cell_email (cells sample_table_gaps ! j) = Str e \<longrightarrow> \<not> email_valid e)
            \<longrightarrow> int j \<notin> fst ` set sample_frame_gaps)
    \<and> (\<forall>res \<in> set (results (fst (send_bulk_email (init ''u'' ''k'') sample_net
           sample_frame_gaps (sample_args 10)))). email_valid (email res))"
    by blast
  have c0: "cell_email (cells sample_table_gaps ! 0) = Float NaN"
    by (simp add: sample_table_gaps_def)
  have c2: "cell_email (cells sample_table_gaps ! 2) = Str ''not-an-email''"
    by (simp add: sample_table_gaps_def)
  have n: "\<not> email_valid ''not-an-email''"
    by (simp add: email_valid_def local_char_def is_space_def at_end_def)
  have len: "length (cells sample_table_gaps) = 4" by (simp add: sample_table_gaps_def)
  from t have "0 < length (cells sample_table_gaps) \<longrightarrow>
      (\<forall>e. cell_email (cells sample_table_gaps ! 0) = Str e \<longrightarrow> \<not> email_valid e)
        \<longrightarrow> int 0 \<notin> fst ` set sample_frame_gaps"
    by blast
  with len c0 have z0: "0 \<notin> fst ` set sample_frame_gaps" by simp
  from t have "2 < length (cells sample_table_gaps) \<longrightarrow>
      (\<forall>e. cell_email (cells sample_table_gaps ! 2) = Str e \<longrightarrow> \<not> email_valid e)
        \<longrightarrow> int 2 \<notin> fst ` set sample_frame_gaps"
    by blast
  with len c2 n have z2: "2 \<notin> fst ` set sample_frame_gaps" by simp
  have labels: "map fst sample_frame_gaps = [1, 3]" by (simp add: sample_frame_gaps_def)
  from t have r: "list_all (\<lambda>res. email_valid (email res))
        (results (fst (send_bulk_email (init ''u'' ''k'') sample_net
           sample_frame_gaps (sample_args 10))))"
    by (simp add: list_all_iff)
  have g1: "sample_read_no_emails ''penerima.csv'' = Inr sample_table_no_emails"
    by (simp add: sample_read_no_emails_def)
  have g2: "list_all (\<lambda>r. isna (cell_email r)) (cells sample_table_no_emails)"
    by (simp add: sample_table_no_emails_def isna_def)
  have g3: "load_recipients_from_csv sample_read_no_emails ''penerima.csv''
       = Inl (Exn Exception
           ''Error membaca file CSV: Can only use .str accessor with string values!'')"
    by (simp add: load_defs sample_read_no_emails_def sample_table_no_emails_def)
  show ?thesis using h1 c0 c2 n e labels z0 z2 r g1 g2 g3 by blast
qed

text \<open>What leaves the loader when the file cannot be read or a column is absent.\<close>

lemma loader_error_kinds:
  "(read_csv file_path = Inl (Exn FileNotFoundError m) \<longrightarrow>
      load_recipients_from_csv read_csv file_path
        = Inl (Exn FileNotFoundError (''File tidak ditemukan: '' @ file_path)))
   \<and> (read_csv file_path = Inr t
        \<and> filter (\<lambda>col. col \<notin> set (columns t)) [''nama'', ''email''] \<noteq> [] \<longrightarrow>
      load_body t = Inl (Exn ValueError (''Kolom yang hilang: '' @
             join '', '' (filter (\<lambda>col. col \<notin> set (columns t)) [''nama'', ''email''])))
      \<and> load_recipients_from_csv read_csv file_path
        = Inl (Exn Exception (''Error membaca file CSV: '' @ ''Kolom yang hilang: '' @
             join '', '' (filter (\<lambda>col. col \<notin> set (columns t)) [''nama'', ''email'']))))"
  by (simp add: load_recipients_from_csv_def load_body_def Let_def)

text \<open>
  \<^bold>\<open>C9.\<close> For a file without the \<open>email\<close> column the column check raises
  \<open>ValueError\<close>, but that is not what leaves the loader: the last handler catches it
  and raises a plain \<open>Exception\<close> in its place, the class it gives to every other
  failure of the read. A path that does not exist does leave the loader as a
  \<open>FileNotFoundError\<close>. In either case no frame is returned.
\<close>

theorem column_check_error_leaves_as_plain_exception:
  "load_body sample_table_no_email = Inl (Exn ValueError ''Kolom yang hilang: email'')
   \<and> load_recipients_from_csv sample_read_no_email ''penerima.csv''
       = Inl (Exn Exception ''Error membaca file CSV: Kolom yang hilang: email'')
   \<and> Exception \<noteq> ValueError
   \<and> load_recipients_from_csv sample_read_missing ''tidak_ada.csv''
       = Inl (Exn FileNotFoundError ''File tidak ditemukan: tidak_ada.csv'')"
  by (simp add: load_recipients_from_csv_def load_body_def Let_def
        sample_read_no_email_def sample_table_no_email_def sample_read_missing_def)

end
